theory Spec2Isabelle
  imports Complex_Main
begin

section \<open>Values and errors\<close>

text \<open>
  The dashboard (\<^verbatim>\<open>app.py\<close>) works on pandas data frames. A data frame is modelled
  as the list of its rows, top to bottom; a column operation is a map or a filter over
  that list. Python's \<^verbatim>\<open>float\<close> is modelled by \<^typ>\<open>real\<close>: the rounding of IEEE
  arithmetic and the values \<^verbatim>\<open>inf\<close> and \<^verbatim>\<open>nan\<close> are outside the model. Python's
  \<^verbatim>\<open>None\<close> is \<^const>\<open>None\<close>. A raised exception is the \<^const>\<open>Inl\<close> branch of the
  result.
\<close>

datatype py_error = IndexError | ValueError | TypeError | OverflowError

section \<open>Trend classification\<close>

text \<open>
  One row of \<^verbatim>\<open>df_yearly\<close>: the columns \<^verbatim>\<open>year\<close> and \<^verbatim>\<open>value\<close> that the aggregation
  leaves.
\<close>

record yearly_point =
  y_year :: int
  y_value :: real

text \<open>The dictionary returned by \<^verbatim>\<open>classify_trend\<close>, one field per key.\<close>

record trend_info =
  start_year :: int
  end_year :: int
  start_val :: real
  end_val :: real
  absolute_change :: real
  percent_change :: "real option"
  label :: string

text \<open>\<^verbatim>\<open>df.iloc[0]\<close> and \<^verbatim>\<open>df.iloc[-1]\<close>: both raise \<^verbatim>\<open>IndexError\<close> on an empty frame.\<close>

definition iloc_first :: "'a list \<Rightarrow> py_error + 'a" where
  "iloc_first df = (case df of [] \<Rightarrow> Inl IndexError | r # _ \<Rightarrow> Inr r)"

definition iloc_last :: "'a list \<Rightarrow> py_error + 'a" where
  "iloc_last df = (case df of [] \<Rightarrow> Inl IndexError | _ # _ \<Rightarrow> Inr (last df))"

definition classify_label :: "real option \<Rightarrow> string" where
  "classify_label percent_change' =
     (case percent_change' of
        None \<Rightarrow> ''uncertain''
      | Some p \<Rightarrow>
          if p > 10 then ''increasing''
          else if p < - 10 then ''decreasing''
          else ''relatively stable'')"

definition classify_trend :: "yearly_point list \<Rightarrow> py_error + trend_info" where
  "classify_trend df_yearly =
     (case iloc_first df_yearly of
        Inl e \<Rightarrow> Inl e
      | Inr first_row \<Rightarrow>
     (case iloc_last df_yearly of
        Inl e \<Rightarrow> Inl e
      | Inr last_row \<Rightarrow>
          let start_year' = y_year first_row;
              end_year' = y_year last_row;
              start_val' = y_value first_row;
              end_val' = y_value last_row;
              absolute_change' = end_val' - start_val';
              percent_change' =
                (if start_val' = 0 then None
                 else Some ((absolute_change' / start_val') * 100))
          in Inr \<lparr> start_year = start_year', end_year = end_year',
                   start_val = start_val', end_val = end_val',
                   absolute_change = absolute_change',
                   percent_change = percent_change',
                   label = classify_label percent_change' \<rparr>))"

section \<open>Loading and cleaning\<close>

text \<open>
  One cell of the raw frame that \<^verbatim>\<open>pd.read_csv\<close> hands over: a missing value
  (\<^verbatim>\<open>NaN\<close> or \<^verbatim>\<open>None\<close>), a string, an integer or a float.
\<close>

datatype cell = NaN | Str string | IntC int | FloatC real

text \<open>A raw row, with the seven columns that \<^verbatim>\<open>clean_who_botswana\<close> reads.\<close>

record raw_row =
  YEAR_DISPLAY :: cell
  GHO_CODE :: cell
  GHO_DISPLAY :: cell
  Numeric :: cell
  COUNTRY_DISPLAY :: cell
  DIMENSION_TYPE :: cell
  DIMENSION_NAME :: cell

text \<open>
  A cleaned row: the columns of \<^verbatim>\<open>keep_cols\<close> and the derived \<^verbatim>\<open>breakdown\<close>. The
  column \<^verbatim>\<open>value\<close> is the field \<open>val\<close>. The dimension columns are kept as they were
  read: \<^verbatim>\<open>fillna\<close> is applied to copies that only feed \<^verbatim>\<open>breakdown\<close>.
\<close>

record observation =
  gho_code :: cell
  gho_display :: cell
  year :: int
  val :: real
  country :: cell
  dimension_type :: cell
  dimension_name :: cell
  breakdown :: string

text \<open>
  \<^verbatim>\<open>col.astype(str).str.startswith("#")\<close>, per cell. The text of a missing value
  (\<^verbatim>\<open>nan\<close>, \<^verbatim>\<open>None\<close>) and the text of a number begin with a letter, a digit, a sign
  or a point, never with \<^verbatim>\<open>#\<close>.
\<close>

fun startswith_hash :: "cell \<Rightarrow> bool" where
  "startswith_hash (Str s) = (case s of [] \<Rightarrow> False | c # _ \<Rightarrow> c = CHR ''#'')"
| "startswith_hash _ = False"

text \<open>\<^verbatim>\<open>dropna\<close> tests a cell with \<^verbatim>\<open>isna\<close>.\<close>

fun isna :: "cell \<Rightarrow> bool" where
  "isna NaN = True"
| "isna _ = False"

text \<open>
  \<^verbatim>\<open>astype(int)\<close> and \<^verbatim>\<open>astype(float)\<close>, per cell. The conversion of a string is that
  of Python's \<^verbatim>\<open>int\<close> and \<^verbatim>\<open>float\<close>, taken as the parameters \<open>str_to_int\<close> and
  \<open>str_to_float\<close> (\<^const>\<open>None\<close> where Python raises \<^verbatim>\<open>ValueError\<close>). A float is
  truncated towards zero by \<^verbatim>\<open>astype(int)\<close>; a missing value cannot be cast to an
  integer. The target of \<^verbatim>\<open>astype(int)\<close> is a 64-bit signed integer: an integer outside
  its range raises \<^verbatim>\<open>OverflowError\<close>, as the cells of an object column do (a float64
  column out of that range is cast by numpy to a platform-dependent value instead; the
  model follows the object column). \<^verbatim>\<open>astype(float)\<close> would leave a missing value as the float \<^verbatim>\<open>nan\<close>, which
  \<^typ>\<open>real\<close> does not have: the case is written as an error, and
  \<^verbatim>\<open>clean_who_botswana\<close> never reaches it, since \<^verbatim>\<open>dropna\<close> has removed those rows.
\<close>

definition int64_range :: "int \<Rightarrow> bool" where
  "int64_range i \<longleftrightarrow> - (2 ^ 63) \<le> i \<and> i < 2 ^ 63"

definition to_int64 :: "int \<Rightarrow> py_error + int" where
  "to_int64 i = (if int64_range i then Inr i else Inl OverflowError)"

fun astype_int :: "(string \<Rightarrow> int option) \<Rightarrow> cell \<Rightarrow> py_error + int" where
  "astype_int str_to_int NaN = Inl ValueError"
| "astype_int str_to_int (Str s) =
     (case str_to_int s of None \<Rightarrow> Inl ValueError | Some i \<Rightarrow> to_int64 i)"
| "astype_int str_to_int (IntC i) = to_int64 i"
| "astype_int str_to_int (FloatC f) = to_int64 (if 0 \<le> f then \<lfloor>f\<rfloor> else \<lceil>f\<rceil>)"

fun astype_float :: "(string \<Rightarrow> real option) \<Rightarrow> cell \<Rightarrow> py_error + real" where
  "astype_float str_to_float NaN = Inl ValueError"
| "astype_float str_to_float (Str s) =
     (case str_to_float s of None \<Rightarrow> Inl ValueError | Some f \<Rightarrow> Inr f)"
| "astype_float str_to_float (IntC i) = Inr (of_int i)"
| "astype_float str_to_float (FloatC f) = Inr f"

text \<open>\<^verbatim>\<open>fillna(d)\<close>, per cell.\<close>

fun fillna :: "string \<Rightarrow> cell \<Rightarrow> cell" where
  "fillna d NaN = Str d"
| "fillna d c = c"

text \<open>
  \<^verbatim>\<open>+\<close> between a column and a string, and between a column of strings and a column,
  per cell: only two strings can be joined, anything else raises \<^verbatim>\<open>TypeError\<close>.
\<close>

fun add_str :: "cell \<Rightarrow> string \<Rightarrow> py_error + string" where
  "add_str (Str s) t = Inr (s @ t)"
| "add_str _ t = Inl TypeError"

fun add_cell :: "string \<Rightarrow> cell \<Rightarrow> py_error + string" where
  "add_cell s (Str t) = Inr (s @ t)"
| "add_cell s _ = Inl TypeError"

text \<open>
  The separator between the two names: a space, an en dash (U+2013, the bytes E2 80 93 in UTF-8)
  and a space.
\<close>

definition en_dash_sep :: string where
  "en_dash_sep = [CHR '' '', CHR 0xE2, CHR 0x80, CHR 0x93, CHR '' '']"

text \<open>
  A column operation that can raise: the cells are converted top to bottom and the first
  failure is the result.
\<close>

fun traverse :: "('a \<Rightarrow> py_error + 'b) \<Rightarrow> 'a list \<Rightarrow> py_error + 'b list" where
  "traverse f [] = Inr []"
| "traverse f (x # xs) =
     (case f x of
        Inl e \<Rightarrow> Inl e
      | Inr y \<Rightarrow> (case traverse f xs of Inl e \<Rightarrow> Inl e | Inr ys \<Rightarrow> Inr (y # ys)))"

definition make_observation :: "raw_row \<times> int \<times> real \<times> string \<Rightarrow> observation" where
  "make_observation q =
     (case q of (r, y, v, b) \<Rightarrow>
        \<lparr> gho_code = GHO_CODE r, gho_display = GHO_DISPLAY r, year = y, val = v,
          country = COUNTRY_DISPLAY r, dimension_type = DIMENSION_TYPE r,
          dimension_name = DIMENSION_NAME r, breakdown = b \<rparr>)"

definition clean_who_botswana ::
  "(string \<Rightarrow> int option) \<Rightarrow> (string \<Rightarrow> real option) \<Rightarrow> raw_row list
     \<Rightarrow> py_error + observation list" where
  "clean_who_botswana str_to_int str_to_float df_raw =
     (let df = filter (\<lambda>r. \<not> startswith_hash (YEAR_DISPLAY r)) df_raw;
          df = filter (\<lambda>r. \<not> startswith_hash (GHO_CODE r)) df;
          df = filter (\<lambda>r. \<not> isna (Numeric r)) df
      in case traverse (astype_int str_to_int) (map YEAR_DISPLAY df) of
           Inl e \<Rightarrow> Inl e
         | Inr years \<Rightarrow>
        (case traverse (astype_float str_to_float) (map Numeric df) of
           Inl e \<Rightarrow> Inl e
         | Inr vals \<Rightarrow>
        (let dim_type = map (\<lambda>r. fillna ''None'' (DIMENSION_TYPE r)) df;
             dim_name = map (\<lambda>r. fillna ''All'' (DIMENSION_NAME r)) df
         in case traverse (\<lambda>c. add_str c en_dash_sep) dim_type of
              Inl e \<Rightarrow> Inl e
            | Inr left \<Rightarrow>
           (case traverse (\<lambda>(s, c). add_cell s c) (zip left dim_name) of
              Inl e \<Rightarrow> Inl e
            | Inr breakdowns \<Rightarrow>
                Inr (map make_observation (zip df (zip years (zip vals breakdowns))))))))"

subsection \<open>A decimal reading of strings\<close>

text \<open>
  The plain decimal part of what Python's \<^verbatim>\<open>int\<close> and \<^verbatim>\<open>float\<close> accept: surrounding
  blanks, one optional sign, digits and, for \<^verbatim>\<open>float\<close>, one decimal point with a digit
  on at least one side. Exponents, digit-group underscores, \<^verbatim>\<open>inf\<close> and \<^verbatim>\<open>nan\<close> are
  not read. The two functions stand for \<open>str_to_int\<close> and \<open>str_to_float\<close> in the
  examples; the general results hold for every pair of readers.
\<close>

definition is_digit :: "char \<Rightarrow> bool" where
  "is_digit c = (c \<in> set ''0123456789'')"

definition digit_val :: "char \<Rightarrow> nat" where
  "digit_val c = (case map_of (zip ''0123456789'' [0, 1, 2, 3, 4, 5, 6, 7, 8, 9]) c of
                    None \<Rightarrow> 0 | Some d \<Rightarrow> d)"

definition digits_val :: "string \<Rightarrow> nat" where
  "digits_val ds = foldl (\<lambda>acc c. 10 * acc + digit_val c) 0 ds"

definition is_blank :: "char \<Rightarrow> bool" where
  "is_blank c = (c \<in> set [CHR '' '', CHR 0x09, CHR 0x0A, CHR 0x0B, CHR 0x0C, CHR 0x0D])"

definition strip :: "string \<Rightarrow> string" where
  "strip s = rev (dropWhile is_blank (rev (dropWhile is_blank s)))"

definition split_sign :: "string \<Rightarrow> int \<times> string" where
  "split_sign s =
     (case s of
        [] \<Rightarrow> (1, [])
      | c # cs \<Rightarrow> if c = CHR ''-'' then (- 1, cs) else if c = CHR ''+'' then (1, cs) else (1, s))"

definition decimal_int :: "string \<Rightarrow> int option" where
  "decimal_int s =
     (case split_sign (strip s) of (sg, ds) \<Rightarrow>
        if ds \<noteq> [] \<and> list_all is_digit ds then Some (sg * int (digits_val ds)) else None)"

definition decimal_float :: "string \<Rightarrow> real option" where
  "decimal_float s =
     (case split_sign (strip s) of (sg, body) \<Rightarrow>
        let ip = takeWhile (\<lambda>c. c \<noteq> CHR ''.'') body;
            fp = drop 1 (dropWhile (\<lambda>c. c \<noteq> CHR ''.'') body)
        in if (ip \<noteq> [] \<or> fp \<noteq> []) \<and> list_all is_digit ip \<and> list_all is_digit fp
           then Some (of_int sg * (of_nat (digits_val ip) + of_nat (digits_val fp) / 10 ^ length fp))
           else None)"

subsection \<open>The rows that cleaning keeps\<close>

text \<open>
  The three filters of \<^verbatim>\<open>clean_who_botswana\<close> as one test on a raw row, and the
  relation between a kept raw row and the cleaned row made from it.
\<close>

definition kept_row :: "raw_row \<Rightarrow> bool" where
  "kept_row r \<longleftrightarrow>
     \<not> startswith_hash (YEAR_DISPLAY r) \<and> \<not> startswith_hash (GHO_CODE r) \<and> Numeric r \<noteq> NaN"

definition cleaned_from ::
  "(string \<Rightarrow> int option) \<Rightarrow> (string \<Rightarrow> real option) \<Rightarrow> raw_row \<Rightarrow> observation \<Rightarrow> bool" where
  "cleaned_from ti tf r ob \<longleftrightarrow>
     astype_int ti (YEAR_DISPLAY r) = Inr (year ob) \<and>
     astype_float tf (Numeric r) = Inr (val ob) \<and>
     (\<exists>l. add_str (fillna ''None'' (DIMENSION_TYPE r)) en_dash_sep = Inr l \<and>
          add_cell l (fillna ''All'' (DIMENSION_NAME r)) = Inr (breakdown ob)) \<and>
     gho_code ob = GHO_CODE r \<and> gho_display ob = GHO_DISPLAY r \<and>
     country ob = COUNTRY_DISPLAY r \<and>
     dimension_type ob = DIMENSION_TYPE r \<and> dimension_name ob = DIMENSION_NAME r"



subsection \<open>Example rows\<close>

text \<open>
  A data row and the tag row that follows the header in the WHO export, as
  \<^verbatim>\<open>read_csv\<close> returns them when every column is read as text.
\<close>

definition row_2015 :: raw_row where
  "row_2015 =
     \<lparr> YEAR_DISPLAY = Str ''2015'', GHO_CODE = Str ''MDG_0000000001'',
       GHO_DISPLAY = Str ''Infant mortality rate'', Numeric = Str ''40.0'',
       COUNTRY_DISPLAY = Str ''Botswana'', DIMENSION_TYPE = Str ''SEX'',
       DIMENSION_NAME = Str ''Both sexes'' \<rparr>"

definition row_hxl :: raw_row where
  "row_hxl =
     \<lparr> YEAR_DISPLAY = Str ''#date+year'', GHO_CODE = Str ''#indicator+code'',
       GHO_DISPLAY = Str ''#indicator+name'', Numeric = Str ''#indicator+value+num'',
       COUNTRY_DISPLAY = Str ''#country+name'', DIMENSION_TYPE = Str ''#dimension+type'',
       DIMENSION_NAME = Str ''#dimension+name'' \<rparr>"

definition example_raw :: "raw_row list" where
  "example_raw =
     [row_hxl, row_2015, row_2015\<lparr>Numeric := NaN\<rparr>,
      row_2015\<lparr>YEAR_DISPLAY := IntC 2016, Numeric := FloatC 20,
               DIMENSION_TYPE := NaN, DIMENSION_NAME := NaN\<rparr>]"

definition obs_2015 :: observation where
  "obs_2015 =
     \<lparr> gho_code = Str ''MDG_0000000001'', gho_display = Str ''Infant mortality rate'',
       year = 2015, val = 40, country = Str ''Botswana'', dimension_type = Str ''SEX'',
       dimension_name = Str ''Both sexes'',
       breakdown = ''SEX'' @ en_dash_sep @ ''Both sexes'' \<rparr>"

definition obs_2016 :: observation where
  "obs_2016 =
     \<lparr> gho_code = Str ''MDG_0000000001'', gho_display = Str ''Infant mortality rate'',
       year = 2016, val = 20, country = Str ''Botswana'', dimension_type = NaN,
       dimension_name = NaN,
       breakdown = ''None'' @ en_dash_sep @ ''All'' \<rparr>"

section \<open>Filtering and aggregation\<close>

text \<open>The first option of the breakdown select box: no filter on the breakdown.\<close>

definition ALL_BREAKDOWNS :: string where
  "ALL_BREAKDOWNS = ''All breakdowns (average)''"

text \<open>\<^verbatim>\<open>mean()\<close> of the values of one group. A group of \<^verbatim>\<open>groupby\<close> is never empty.\<close>

definition mean :: "real list \<Rightarrow> real" where
  "mean vs = sum_list vs / of_nat (length vs)"

text \<open>
  \<^verbatim>\<open>groupby("year", as_index=False)["value"].mean()\<close>: one row per distinct year, the
  years in ascending order (the default \<^verbatim>\<open>sort=True\<close>), each with the mean of the
  values of the rows of that year.
\<close>

definition groupby_year_mean :: "observation list \<Rightarrow> yearly_point list" where
  "groupby_year_mean df =
     map (\<lambda>y. \<lparr> y_year = y, y_value = mean (map val (filter (\<lambda>r. year r = y) df)) \<rparr>)
         (sort (remdups (map year df)))"

text \<open>\<^verbatim>\<open>sort_values("year")\<close>.\<close>

definition sort_values_year :: "yearly_point list \<Rightarrow> yearly_point list" where
  "sort_values_year df = sort_key y_year df"

text \<open>
  Lines 310 to 322 of the script: the frame \<^verbatim>\<open>df_yearly\<close> computed from the cleaned
  frame, the selected indicator, the selected breakdown and the year range. An
  indicator name is a string; a cell that is not that string differs from it.
\<close>

definition df_yearly ::
  "observation list \<Rightarrow> string \<Rightarrow> string \<Rightarrow> int \<times> int \<Rightarrow> yearly_point list" where
  "df_yearly df selected_indicator selected_breakdown year_range =
     (let df_ind = filter (\<lambda>r. gho_display r = Str selected_indicator) df;
          df_ind = filter (\<lambda>r. year r \<ge> fst year_range \<and> year r \<le> snd year_range) df_ind;
          df_ind = (if selected_breakdown \<noteq> ALL_BREAKDOWNS
                    then filter (\<lambda>r. breakdown r = selected_breakdown) df_ind
                    else df_ind)
      in sort_values_year (groupby_year_mean df_ind))"

section \<open>Explanatory text\<close>

text \<open>
  Strings are byte lists (UTF-8). \<^verbatim>\<open>str.lower\<close> is modelled on the letters A to Z;
  the keywords searched for are ASCII, and no other character lowers to one of their
  letters in a position where a keyword could match.
\<close>

definition lower_char :: "char \<Rightarrow> char" where
  "lower_char c =
     (case map_of (zip ''ABCDEFGHIJKLMNOPQRSTUVWXYZ'' ''abcdefghijklmnopqrstuvwxyz'') c of
        None \<Rightarrow> c | Some d \<Rightarrow> d)"

definition str_lower :: "string \<Rightarrow> string" where
  "str_lower s = map lower_char s"

text \<open>Python's \<^verbatim>\<open>kw in name\<close> on strings: \<open>kw\<close> occurs in \<open>name\<close> as a contiguous run.\<close>

primrec str_in :: "string \<Rightarrow> string \<Rightarrow> bool" where
  "str_in kw [] = (kw = [])"
| "str_in kw (c # cs) = (take (length kw) (c # cs) = kw \<or> str_in kw cs)"

definition TEXT_CHILD :: string where
  "TEXT_CHILD = ''This indicator tracks deaths among very young children. '' @
     ''Higher values usually mean worse outcomes for child survival; '' @
     ''falling trends are a positive sign.''"

definition TEXT_ADOLESCENT :: string where
  "TEXT_ADOLESCENT = ''This indicator focuses on health outcomes among adolescents. '' @
     ''Monitoring this helps understand risk, injuries, and access to care for young people.''"

definition TEXT_MATERNAL :: string where
  "TEXT_MATERNAL =
     ''This indicator relates to the health and survival of mothers during pregnancy, '' @
     ''childbirth, and the postnatal period. Lower mortality is better.''"

definition TEXT_HIV :: string where
  "TEXT_HIV = ''This indicator describes HIV-related burden or services. '' @
     ''Declining mortality or incidence is usually good; increasing coverage of treatment is positive.''"

definition TEXT_TB :: string where
  "TEXT_TB = ''This indicator relates to tuberculosis burden or control. '' @
     ''Higher mortality or incidence is concerning; declining trends suggest better TB control.''"

definition TEXT_SUICIDE :: string where
  "TEXT_SUICIDE = ''This indicator tracks deaths due to suicide. '' @
     ''Rising values can signal growing mental health and social stress challenges.''"

definition TEXT_GENERIC :: string where
  "TEXT_GENERIC =
     ''This indicator reflects a specific health outcome or service coverage in Botswana. '' @
     ''Changes over time can signal improvements or emerging challenges in the health system.''"

definition describe_indicator :: "string \<Rightarrow> string" where
  "describe_indicator indicator_name =
     (let name = str_lower indicator_name
      in if str_in ''infant'' name \<or> str_in ''neonatal'' name \<or> str_in ''under-five'' name
         then TEXT_CHILD
         else if str_in ''adolescent'' name then TEXT_ADOLESCENT
         else if str_in ''maternal'' name then TEXT_MATERNAL
         else if str_in ''hiv'' name then TEXT_HIV
         else if str_in ''tb'' name \<or> str_in ''tuberculosis'' name then TEXT_TB
         else if str_in ''suicide'' name then TEXT_SUICIDE
         else TEXT_GENERIC)"

section \<open>Narrative\<close>

text \<open>The decimal text of an integer, as an f-string prints it.\<close>

fun str_nat :: "nat \<Rightarrow> string" where
  "str_nat n =
     (if n < 10 then [''0123456789'' ! n]
      else str_nat (n div 10) @ [''0123456789'' ! (n mod 10)])"

definition str_int :: "int \<Rightarrow> string" where
  "str_int i = (if i < 0 then CHR ''-'' # str_nat (nat (- i)) else str_nat (nat i))"

text \<open>
  The texts of floats are those of Python: \<open>round2_str v\<close> is the text of
  \<^verbatim>\<open>round(v, 2)\<close> and \<open>fmt_1f p\<close> is \<^verbatim>\<open>f"{p:.1f}"\<close>. Both are parameters.
\<close>

definition make_trend_narrative ::
  "(real \<Rightarrow> string) \<Rightarrow> (real \<Rightarrow> string) \<Rightarrow> string \<Rightarrow> trend_info \<Rightarrow> string" where
  "make_trend_narrative round2_str fmt_1f indicator_name trend_info' =
     (let label' = label trend_info';
          start_year' = start_year trend_info';
          end_year' = end_year trend_info';
          start_val_r = round2_str (start_val trend_info');
          end_val_r = round2_str (end_val trend_info');
          pct_txt =
            (case percent_change trend_info' of
               None \<Rightarrow> ''an uncertain percentage change (starting value was zero)''
             | Some pct \<Rightarrow> ''about '' @ fmt_1f pct @ ''%'')
      in if label' = ''increasing'' then
           ''Between '' @ str_int start_year' @ '' and '' @ str_int end_year' @
           '', this indicator increased from '' @ start_val_r @ '' to '' @ end_val_r @
           '', a change of '' @ pct_txt @ ''. '' @
           ''This suggests a worsening of the measured burden if higher values are harmful, '' @
           ''or improvement if the indicator tracks coverage or access.''
         else if label' = ''decreasing'' then
           ''Between '' @ str_int start_year' @ '' and '' @ str_int end_year' @
           '', this indicator decreased from '' @ start_val_r @ '' to '' @ end_val_r @
           '', a change of '' @ pct_txt @ ''. '' @
           ''For outcomes where high values are harmful (like deaths or mortality), '' @
           ''this pattern is generally positive.''
         else if label' = ''relatively stable'' then
           ''From '' @ str_int start_year' @ '' to '' @ str_int end_year' @
           '', this indicator stayed relatively stable around '' @ end_val_r @
           '', with '' @ pct_txt @ '' change overall. '' @
           ''This may mean that major shifts in this health area have not yet occurred.''
         else
           ''From '' @ str_int start_year' @ '' to '' @ str_int end_year' @
           '', this indicator changed from '' @ start_val_r @ '' to '' @ end_val_r @ ''. '' @
           ''More detailed context is needed to interpret whether this is good or bad for Botswana.'')"

section \<open>The page for one selection\<close>

text \<open>
  The four metrics of the first tab (lines 340 to 353). \<open>change_abs\<close> and
  \<open>change_pct\<close> are Python values that can be \<^verbatim>\<open>None\<close>; the script assigns a float to
  \<^verbatim>\<open>change_abs\<close> on every path.
\<close>

record kpis =
  latest_year :: int
  latest_value :: real
  change_abs :: "real option"
  change_pct :: "real option"

definition compute_kpis :: "yearly_point list \<Rightarrow> py_error + kpis" where
  "compute_kpis df_yearly' =
     (case iloc_last df_yearly' of
        Inl e \<Rightarrow> Inl e
      | Inr latest_row \<Rightarrow>
          let latest_year' = y_year latest_row;
              latest_value' = y_value latest_row
          in if length df_yearly' > 1 then
               let prev_row = df_yearly' ! (length df_yearly' - 2);
                   change_abs' = latest_value' - y_value prev_row;
                   change_pct' =
                     (if y_value prev_row \<noteq> 0
                      then Some ((change_abs' / y_value prev_row) * 100)
                      else None)
               in Inr \<lparr> latest_year = latest_year', latest_value = latest_value',
                        change_abs = Some change_abs', change_pct = change_pct' \<rparr>
             else Inr \<lparr> latest_year = latest_year', latest_value = latest_value',
                        change_abs = Some 0, change_pct = None \<rparr>)"




subsection \<open>The selection as one test, and example rows\<close>

text \<open>
  The filters of lines 310 to 314 as one test on a cleaned row: the indicator, the year
  range, and the breakdown unless the first option of the select box is chosen.
\<close>

definition selected_row :: "string \<Rightarrow> string \<Rightarrow> int \<times> int \<Rightarrow> observation \<Rightarrow> bool" where
  "selected_row ind bd yr r \<longleftrightarrow>
     gho_display r = Str ind \<and> fst yr \<le> year r \<and> year r \<le> snd yr \<and>
     (bd = ALL_BREAKDOWNS \<or> breakdown r = bd)"

definition example_obs :: "observation list" where
  "example_obs =
     [obs_2015\<lparr>year := 2020, val := 10, dimension_name := Str ''Male'',
               breakdown := ''SEX'' @ en_dash_sep @ ''Male''\<rparr>,
      obs_2015,
      obs_2015\<lparr>year := 2020, val := 20, dimension_name := Str ''Female'',
               breakdown := ''SEX'' @ en_dash_sep @ ''Female''\<rparr>,
      obs_2015\<lparr>year := 2021, val := 7\<rparr>,
      obs_2015\<lparr>gho_display := Str ''Suicide rate'', val := 3\<rparr>]"

subsection \<open>Occurrence of a keyword, whatever the case of the letters\<close>

text \<open>
  A keyword occurs in a name, ignoring case, when some contiguous part of the name
  lowers to the lowered keyword.
\<close>

definition occurs_ignoring_case :: "string \<Rightarrow> string \<Rightarrow> bool" where
  "occurs_ignoring_case kw name \<longleftrightarrow>
     (\<exists>ps w ss. name = ps @ w @ ss \<and> str_lower w = str_lower kw)"

subsection \<open>An example summary\<close>

definition example_trend :: trend_info where
  "example_trend =
     \<lparr> start_year = 2015, end_year = 2020, start_val = 40, end_val = 30,
       absolute_change = - 10, percent_change = Some (- 25), label = ''decreasing'' \<rparr>"

section \<open>Properties of the trend classification\<close>

lemma classify_trend_nonempty:
  assumes "pts \<noteq> []"
  shows "classify_trend pts =
     Inr \<lparr> start_year = y_year (hd pts), end_year = y_year (last pts),
           start_val = y_value (hd pts), end_val = y_value (last pts),
           absolute_change = y_value (last pts) - y_value (hd pts),
           percent_change =
             (if y_value (hd pts) = 0 then None
              else Some (((y_value (last pts) - y_value (hd pts))
                          / y_value (hd pts)) * 100)),
           label = classify_label
             (if y_value (hd pts) = 0 then None
              else Some (((y_value (last pts) - y_value (hd pts))
                          / y_value (hd pts)) * 100)) \<rparr>"
proof -
  from assms obtain r rs where "pts = r # rs"
    by (cases pts) auto
  then show ?thesis
    by (simp add: classify_trend_def iloc_first_def iloc_last_def Let_def)
qed

lemma classify_trend_empty: "classify_trend [] = Inl IndexError"
  by (simp add: classify_trend_def iloc_first_def)

lemma classify_label_uncertain_iff:
  "classify_label pc = ''uncertain'' \<longleftrightarrow> pc = None"
  by (cases pc) (simp_all add: classify_label_def)

text \<open>
  Claim C1. For a non-empty yearly sequence \<^verbatim>\<open>classify_trend\<close> returns a summary. When
  the first value is not zero, its percent change is that from the first to the last
  value, and its label is \<^verbatim>\<open>increasing\<close> when that percent change is above 10,
  \<^verbatim>\<open>decreasing\<close> when it is below -10, and \<^verbatim>\<open>relatively stable\<close> otherwise, the
  bounds +10 and -10 included. When the first value is zero the percent change is null
  and the label is \<^verbatim>\<open>uncertain\<close>. In every case the label follows from the percent
  change of the summary in this way.
\<close>

theorem classify_trend_thresholds:
  assumes "pts \<noteq> []"
  shows "\<exists>t. classify_trend pts = Inr t \<and>
     (y_value (hd pts) = 0 \<longrightarrow> percent_change t = None \<and> label t = ''uncertain'') \<and>
     (y_value (hd pts) \<noteq> 0 \<longrightarrow>
        percent_change t =
          Some ((y_value (last pts) - y_value (hd pts)) / y_value (hd pts) * 100) \<and>
        ((y_value (last pts) - y_value (hd pts)) / y_value (hd pts) * 100 > 10 \<longrightarrow>
           label t = ''increasing'') \<and>
        ((y_value (last pts) - y_value (hd pts)) / y_value (hd pts) * 100 < - 10 \<longrightarrow>
           label t = ''decreasing'') \<and>
        (- 10 \<le> (y_value (last pts) - y_value (hd pts)) / y_value (hd pts) * 100 \<and>
         (y_value (last pts) - y_value (hd pts)) / y_value (hd pts) * 100 \<le> 10 \<longrightarrow>
           label t = ''relatively stable'')) \<and>
     (case percent_change t of
        None \<Rightarrow> label t = ''uncertain''
      | Some p \<Rightarrow>
          (p > 10 \<longrightarrow> label t = ''increasing'') \<and>
          (p < - 10 \<longrightarrow> label t = ''decreasing'') \<and>
          (- 10 \<le> p \<and> p \<le> 10 \<longrightarrow> label t = ''relatively stable''))"
  using assms
  by (simp add: classify_trend_nonempty classify_label_def)

text \<open>A fall from 40 to 30 and a rise from 40 to 50.\<close>

theorem classify_trend_thresholds_witness:
  "[\<lparr>y_year = 2015, y_value = 40\<rparr>, \<lparr>y_year = 2020, y_value = 30\<rparr>] \<noteq> [] \<and>
   (\<exists>t. classify_trend [\<lparr>y_year = 2015, y_value = 40\<rparr>, \<lparr>y_year = 2020, y_value = 30\<rparr>] = Inr t \<and>
        percent_change t = Some (- 25) \<and> label t = ''decreasing'') \<and>
   [\<lparr>y_year = 2015, y_value = 40\<rparr>, \<lparr>y_year = 2020, y_value = 50\<rparr>] \<noteq> [] \<and>
   (\<exists>t. classify_trend [\<lparr>y_year = 2015, y_value = 40\<rparr>, \<lparr>y_year = 2020, y_value = 50\<rparr>] = Inr t \<and>
        percent_change t = Some 25 \<and> label t = ''increasing'')"
proof -
  let ?d = "[\<lparr>y_year = 2015, y_value = 40\<rparr>, \<lparr>y_year = 2020, y_value = 30\<rparr>]"
  let ?u = "[\<lparr>y_year = 2015, y_value = 40\<rparr>, \<lparr>y_year = 2020, y_value = 50\<rparr>]"
  have nd: "?d \<noteq> []" and nu: "?u \<noteq> []" by simp_all
  from classify_trend_thresholds [OF nd]
  have d: "\<exists>t. classify_trend ?d = Inr t \<and>
        percent_change t = Some (- 25) \<and> label t = ''decreasing''"
    by simp blast
  from classify_trend_thresholds [OF nu]
  have u: "\<exists>t. classify_trend ?u = Inr t \<and>
        percent_change t = Some 25 \<and> label t = ''increasing''"
    by simp blast
  from nd d nu u show ?thesis by blast
qed

text \<open>
  Claim C2. For a non-empty yearly sequence the summary's percent change is null exactly
  when the first point's value is zero; otherwise it is
  \<^verbatim>\<open>(end_val - start_val) / start_val * 100\<close>, the two values being those of the last and
  of the first point. The label is \<^verbatim>\<open>uncertain\<close> if and only if the percent change is
  null.
\<close>

theorem classify_trend_percent_change:
  assumes "pts \<noteq> []"
  shows "\<exists>t. classify_trend pts = Inr t \<and>
     start_val t = y_value (hd pts) \<and>
     end_val t = y_value (last pts) \<and>
     (percent_change t = None \<longleftrightarrow> start_val t = 0) \<and>
     (start_val t \<noteq> 0 \<longrightarrow>
        percent_change t = Some ((end_val t - start_val t) / start_val t * 100)) \<and>
     (label t = ''uncertain'' \<longleftrightarrow> percent_change t = None)"
  using assms
  by (simp add: classify_trend_nonempty classify_label_uncertain_iff)

theorem classify_trend_percent_change_witness:
  "[\<lparr>y_year = 2000, y_value = 0\<rparr>, \<lparr>y_year = 2001, y_value = 8\<rparr>] \<noteq> [] \<and>
   (\<exists>t. classify_trend [\<lparr>y_year = 2000, y_value = 0\<rparr>, \<lparr>y_year = 2001, y_value = 8\<rparr>] = Inr t \<and>
        start_val t = 0 \<and> end_val t = 8 \<and>
        percent_change t = None \<and> label t = ''uncertain'')"
proof -
  let ?df = "[\<lparr>y_year = 2000, y_value = 0\<rparr>, \<lparr>y_year = 2001, y_value = 8\<rparr>]"
  have ne: "?df \<noteq> []" by simp
  from classify_trend_percent_change [OF ne] obtain t where
    t: "classify_trend ?df = Inr t \<and>
     start_val t = y_value (hd ?df) \<and>
     end_val t = y_value (last ?df) \<and>
     (percent_change t = None \<longleftrightarrow> start_val t = 0) \<and>
     (start_val t \<noteq> 0 \<longrightarrow>
        percent_change t = Some ((end_val t - start_val t) / start_val t * 100)) \<and>
     (label t = ''uncertain'' \<longleftrightarrow> percent_change t = None)" ..
  then have "classify_trend ?df = Inr t \<and> start_val t = 0 \<and> end_val t = 8 \<and>
      percent_change t = None \<and> label t = ''uncertain''"
    by simp
  with ne show ?thesis by blast
qed

text \<open>
  Claim C5. For a sequence of a single point \<^verbatim>\<open>classify_trend\<close> returns an absolute
  change of 0; the percent change is 0 and the label \<^verbatim>\<open>relatively stable\<close>, unless the
  point's value is 0, where the percent change is null and the label \<^verbatim>\<open>uncertain\<close>.
\<close>

theorem classify_trend_single_point:
  "\<exists>t. classify_trend [p] = Inr t \<and>
     absolute_change t = 0 \<and>
     (y_value p \<noteq> 0 \<longrightarrow> percent_change t = Some 0 \<and> label t = ''relatively stable'') \<and>
     (y_value p = 0 \<longrightarrow> percent_change t = None \<and> label t = ''uncertain'')"
  by (simp add: classify_trend_nonempty classify_label_def)

theorem classify_trend_single_point_witness:
  "\<exists>t. classify_trend [\<lparr>y_year = 2019, y_value = 12.5\<rparr>] = Inr t \<and>
     absolute_change t = 0 \<and> percent_change t = Some 0 \<and> label t = ''relatively stable''"
  using classify_trend_single_point [of "\<lparr>y_year = 2019, y_value = 12.5\<rparr>"]
  by simp
section \<open>Properties of cleaning\<close>

lemma traverse_Inr_all2:
  "traverse f xs = Inr ys \<Longrightarrow> list_all2 (\<lambda>x y. f x = Inr y) xs ys"
  by (induction xs arbitrary: ys) (auto split: sum.splits)



lemma list_all2_right_member:
  "list_all2 P xs ys \<Longrightarrow> y \<in> set ys \<Longrightarrow> \<exists>x\<in>set xs. P x y"
  by (induction rule: list_all2_induct) auto

lemma isna_iff: "isna c \<longleftrightarrow> c = NaN"
  by (cases c) simp_all




lemma kept_rows_filter:
  "filter (\<lambda>r. \<not> isna (Numeric r))
     (filter (\<lambda>r. \<not> startswith_hash (GHO_CODE r))
        (filter (\<lambda>r. \<not> startswith_hash (YEAR_DISPLAY r)) df_raw)) = filter kept_row df_raw"
  by (induction df_raw) (auto simp: kept_row_def isna_iff)

text \<open>The function with its three filters merged and its \<open>let\<close>s unfolded.\<close>

lemma clean_who_botswana_kept:
  "clean_who_botswana ti tf df_raw =
     (case traverse (astype_int ti) (map YEAR_DISPLAY (filter kept_row df_raw)) of
        Inl e \<Rightarrow> Inl e
      | Inr years \<Rightarrow>
     (case traverse (astype_float tf) (map Numeric (filter kept_row df_raw)) of
        Inl e \<Rightarrow> Inl e
      | Inr vals \<Rightarrow>
     (case traverse (\<lambda>c. add_str c en_dash_sep)
             (map (\<lambda>r. fillna ''None'' (DIMENSION_TYPE r)) (filter kept_row df_raw)) of
        Inl e \<Rightarrow> Inl e
      | Inr left \<Rightarrow>
     (case traverse (\<lambda>(s, c). add_cell s c)
             (zip left (map (\<lambda>r. fillna ''All'' (DIMENSION_NAME r)) (filter kept_row df_raw))) of
        Inl e \<Rightarrow> Inl e
      | Inr breakdowns \<Rightarrow>
          Inr (map make_observation
                 (zip (filter kept_row df_raw) (zip years (zip vals breakdowns))))))))"
  by (simp only: clean_who_botswana_def Let_def kept_rows_filter)

text \<open>
  When cleaning returns, its rows are the kept raw rows, in order, each converted.
\<close>

lemma clean_who_botswana_Inr:
  assumes "clean_who_botswana ti tf df_raw = Inr df"
  shows "list_all2 (cleaned_from ti tf) (filter kept_row df_raw) df"
proof -
  let ?k = "filter kept_row df_raw"
  from assms obtain years vals left bds where
    y: "traverse (astype_int ti) (map YEAR_DISPLAY ?k) = Inr years" and
    v: "traverse (astype_float tf) (map Numeric ?k) = Inr vals" and
    l: "traverse (\<lambda>c. add_str c en_dash_sep)
          (map (\<lambda>r. fillna ''None'' (DIMENSION_TYPE r)) ?k) = Inr left" and
    b: "traverse (\<lambda>(s, c). add_cell s c)
          (zip left (map (\<lambda>r. fillna ''All'' (DIMENSION_NAME r)) ?k)) = Inr bds" and
    df: "df = map make_observation (zip ?k (zip years (zip vals bds)))"
    by (auto simp: clean_who_botswana_kept split: sum.splits)
  note Y = traverse_Inr_all2 [OF y] and V = traverse_Inr_all2 [OF v]
    and L = traverse_Inr_all2 [OF l] and B = traverse_Inr_all2 [OF b]
  have ly: "length years = length ?k" using list_all2_lengthD [OF Y] by simp
  have lv: "length vals = length ?k" using list_all2_lengthD [OF V] by simp
  have ll: "length left = length ?k" using list_all2_lengthD [OF L] by simp
  have lb: "length bds = length ?k" using list_all2_lengthD [OF B] ll by simp
  have len: "length df = length ?k" by (simp add: df ly lv lb)
  have "cleaned_from ti tf (?k ! i) (df ! i)" if i: "i < length ?k" for i
  proof -
    have dfi: "df ! i = make_observation (?k ! i, years ! i, vals ! i, bds ! i)"
      using i by (simp add: df ly lv lb)
    have 1: "astype_int ti (YEAR_DISPLAY (?k ! i)) = Inr (years ! i)"
      using list_all2_nthD [OF Y, of i] i by simp
    have 2: "astype_float tf (Numeric (?k ! i)) = Inr (vals ! i)"
      using list_all2_nthD [OF V, of i] i by simp
    have 3: "add_str (fillna ''None'' (DIMENSION_TYPE (?k ! i))) en_dash_sep = Inr (left ! i)"
      using list_all2_nthD [OF L, of i] i by simp
    have 4: "add_cell (left ! i) (fillna ''All'' (DIMENSION_NAME (?k ! i))) = Inr (bds ! i)"
      using list_all2_nthD [OF B, of i] i ll by simp
    show ?thesis
      unfolding cleaned_from_def dfi using 1 2 3 4 by (simp add: make_observation_def)
  qed
  with len show ?thesis by (simp add: list_all2_conv_all_nth)
qed

lemmas decimal_defs =
  decimal_int_def decimal_float_def split_sign_def strip_def is_blank_def is_digit_def
  digits_val_def digit_val_def to_int64_def int64_range_def

lemma clean_example:
  "clean_who_botswana decimal_int decimal_float example_raw = Inr [obs_2015, obs_2016]"
  by (simp add: clean_who_botswana_def example_raw_def obs_2015_def obs_2016_def
      row_hxl_def row_2015_def decimal_defs make_observation_def)





lemma add_str_error: "add_str c t = Inl e \<Longrightarrow> e = TypeError"
  by (cases c) simp_all

lemma add_cell_error: "add_cell l c = Inl e \<Longrightarrow> e = TypeError"
  by (cases c) simp_all










text \<open>
  Claim C7. In every row that cleaning returns, the breakdown label is the dimension
  type, a separator (space, en dash, space) and the dimension name, where a
  missing dimension type reads \<^verbatim>\<open>None\<close> and a missing dimension name reads \<^verbatim>\<open>All\<close>.
\<close>

theorem breakdown_label:
  assumes "clean_who_botswana ti tf df_raw = Inr df" and "ob \<in> set df"
  shows "\<exists>t n. (dimension_type ob = NaN \<and> t = ''None'' \<or> dimension_type ob = Str t) \<and>
               (dimension_name ob = NaN \<and> n = ''All'' \<or> dimension_name ob = Str n) \<and>
               breakdown ob = t @ [CHR '' '', CHR 0xE2, CHR 0x80, CHR 0x93, CHR '' ''] @ n"
proof -
  from clean_who_botswana_Inr [OF assms(1)] assms(2)
  obtain r where c: "cleaned_from ti tf r ob"
    by (blast dest: list_all2_right_member)
  then obtain l where
    l: "add_str (fillna ''None'' (DIMENSION_TYPE r)) en_dash_sep = Inr l" and
    b: "add_cell l (fillna ''All'' (DIMENSION_NAME r)) = Inr (breakdown ob)" and
    dt: "dimension_type ob = DIMENSION_TYPE r" and dn: "dimension_name ob = DIMENSION_NAME r"
    by (auto simp: cleaned_from_def)
  from l obtain t where t: "fillna ''None'' (dimension_type ob) = Str t" "l = t @ en_dash_sep"
    unfolding dt by (cases "fillna ''None'' (DIMENSION_TYPE r)") auto
  from b obtain n where n: "fillna ''All'' (dimension_name ob) = Str n" "breakdown ob = l @ n"
    unfolding dn by (cases "fillna ''All'' (DIMENSION_NAME r)") auto
  from t(1) have "dimension_type ob = NaN \<and> t = ''None'' \<or> dimension_type ob = Str t"
    by (cases "dimension_type ob") auto
  moreover from n(1) have "dimension_name ob = NaN \<and> n = ''All'' \<or> dimension_name ob = Str n"
    by (cases "dimension_name ob") auto
  moreover have "breakdown ob = t @ [CHR '' '', CHR 0xE2, CHR 0x80, CHR 0x93, CHR '' ''] @ n"
    using t(2) n(2) by (simp add: en_dash_sep_def)
  ultimately show ?thesis by blast
qed

theorem breakdown_label_witness:
  "clean_who_botswana decimal_int decimal_float example_raw = Inr [obs_2015, obs_2016] \<and>
   obs_2016 \<in> set [obs_2015, obs_2016] \<and>
   breakdown obs_2016 = ''None'' @ [CHR '' '', CHR 0xE2, CHR 0x80, CHR 0x93, CHR '' ''] @ ''All''"
proof -
  have m: "obs_2016 \<in> set [obs_2015, obs_2016]" by simp
  from breakdown_label [OF clean_example m] obtain t n where
    t: "dimension_type obs_2016 = NaN \<and> t = ''None'' \<or> dimension_type obs_2016 = Str t" and
    n: "dimension_name obs_2016 = NaN \<and> n = ''All'' \<or> dimension_name obs_2016 = Str n" and
    b: "breakdown obs_2016 = t @ [CHR '' '', CHR 0xE2, CHR 0x80, CHR 0x93, CHR '' ''] @ n"
    by blast
  from t have "t = ''None''" by (simp add: obs_2016_def)
  moreover from n have "n = ''All''" by (simp add: obs_2016_def)
  ultimately show ?thesis using b m clean_example by simp
qed

section \<open>Properties of filtering and aggregation\<close>

lemma groupby_year_mean_years:
  "map y_year (groupby_year_mean df) = sort (remdups (map year df))"
  by (simp add: groupby_year_mean_def comp_def)

text \<open>The grouped frame is already in year order, so sorting it again changes nothing.\<close>

lemma sort_values_groupby:
  "sort_values_year (groupby_year_mean df) = groupby_year_mean df"
  unfolding sort_values_year_def
  by (rule sort_key_id_if_sorted) (simp add: groupby_year_mean_years)

lemma selected_rows_filter:
  "(if bd \<noteq> ALL_BREAKDOWNS
    then filter (\<lambda>r. breakdown r = bd)
           (filter (\<lambda>r. year r \<ge> fst yr \<and> year r \<le> snd yr)
              (filter (\<lambda>r. gho_display r = Str ind) df))
    else filter (\<lambda>r. year r \<ge> fst yr \<and> year r \<le> snd yr)
           (filter (\<lambda>r. gho_display r = Str ind) df))
   = filter (selected_row ind bd yr) df"
  by (induction df) (auto simp: selected_row_def)

lemma df_yearly_selected:
  "df_yearly df ind bd yr = groupby_year_mean (filter (selected_row ind bd yr) df)"
  by (simp only: df_yearly_def Let_def selected_rows_filter sort_values_groupby)

lemma sort_remdups_empty_iff: "sort (remdups (map f xs)) = [] \<longleftrightarrow> xs = []"
proof -
  have "sort (remdups (map f xs)) = [] \<longleftrightarrow> set (sort (remdups (map f xs))) = {}"
    by (simp only: set_empty)
  also have "\<dots> \<longleftrightarrow> xs = []" by simp
  finally show ?thesis .
qed

lemma df_yearly_empty_iff:
  "df_yearly df ind bd yr = [] \<longleftrightarrow> filter (selected_row ind bd yr) df = []"
  by (simp add: df_yearly_selected groupby_year_mean_def sort_remdups_empty_iff)

lemma df_yearly_example:
  "df_yearly example_obs ''Infant mortality rate'' ALL_BREAKDOWNS (2015, 2020) =
     [\<lparr>y_year = 2015, y_value = 40\<rparr>, \<lparr>y_year = 2020, y_value = 15\<rparr>]"
  by (simp add: df_yearly_def example_obs_def obs_2015_def ALL_BREAKDOWNS_def
      groupby_year_mean_def sort_values_year_def mean_def)

text \<open>
  Claim C4. The rows kept are exactly those with the selected indicator name, a year in
  the range and, unless the breakdown filter is off, the selected breakdown. The result
  has one point for each year among the kept rows and no other, in ascending order of
  year, no year twice; the value of a point is the sum of the values of the kept rows
  of its year divided by their number.
\<close>

theorem df_yearly_filter_aggregate:
  "sorted (map y_year (df_yearly df ind bd yr)) \<and>
   distinct (map y_year (df_yearly df ind bd yr)) \<and>
   set (map y_year (df_yearly df ind bd yr)) = year ` set (filter (selected_row ind bd yr) df) \<and>
   (\<forall>p\<in>set (df_yearly df ind bd yr).
      y_value p =
        sum_list (map val (filter (\<lambda>r. year r = y_year p) (filter (selected_row ind bd yr) df)))
        / of_nat (length (filter (\<lambda>r. year r = y_year p) (filter (selected_row ind bd yr) df))))"
proof -
  let ?k = "filter (selected_row ind bd yr) df"
  have ys: "map y_year (df_yearly df ind bd yr) = sort (remdups (map year ?k))"
    by (simp add: df_yearly_selected groupby_year_mean_years)
  have "sorted (map y_year (df_yearly df ind bd yr))"
    unfolding ys by simp
  moreover have "distinct (map y_year (df_yearly df ind bd yr))"
    unfolding ys by simp
  moreover have "set (map y_year (df_yearly df ind bd yr)) = year ` set ?k"
    unfolding ys by simp
  moreover have "\<forall>p\<in>set (df_yearly df ind bd yr).
      y_value p = sum_list (map val (filter (\<lambda>r. year r = y_year p) ?k))
        / of_nat (length (filter (\<lambda>r. year r = y_year p) ?k))"
    by (auto simp: df_yearly_selected groupby_year_mean_def mean_def)
  ultimately show ?thesis by blast
qed

text \<open>
  At the example frame with no breakdown filter and the years 2015 to 2020: the two rows
  of 2020, with the values 10 and 20, give the point 15.
\<close>

theorem df_yearly_filter_aggregate_witness:
  "df_yearly example_obs ''Infant mortality rate'' ALL_BREAKDOWNS (2015, 2020) =
     [\<lparr>y_year = 2015, y_value = 40\<rparr>, \<lparr>y_year = 2020, y_value = 15\<rparr>] \<and>
   year ` set (filter (selected_row ''Infant mortality rate'' ALL_BREAKDOWNS (2015, 2020))
                 example_obs) = {2015, 2020} \<and>
   \<lparr>y_year = 2020, y_value = 15\<rparr> \<in>
     set (df_yearly example_obs ''Infant mortality rate'' ALL_BREAKDOWNS (2015, 2020)) \<and>
   sum_list (map val (filter (\<lambda>r. year r = 2020)
     (filter (selected_row ''Infant mortality rate'' ALL_BREAKDOWNS (2015, 2020)) example_obs)))
   / of_nat (length (filter (\<lambda>r. year r = 2020)
     (filter (selected_row ''Infant mortality rate'' ALL_BREAKDOWNS (2015, 2020)) example_obs)))
   = 15"
  using df_yearly_filter_aggregate
    [of example_obs "''Infant mortality rate''" ALL_BREAKDOWNS "(2015, 2020)"]
  unfolding df_yearly_example
  by auto

section \<open>Properties of the page\<close>

lemma compute_kpis_nonempty:
  assumes "pts \<noteq> []"
  shows "compute_kpis pts =
     Inr \<lparr> latest_year = y_year (last pts), latest_value = y_value (last pts),
           change_abs =
             Some (if length pts > 1 then y_value (last pts) - y_value (pts ! (length pts - 2))
                   else 0),
           change_pct =
             (if length pts > 1 \<and> y_value (pts ! (length pts - 2)) \<noteq> 0
              then Some ((y_value (last pts) - y_value (pts ! (length pts - 2)))
                         / y_value (pts ! (length pts - 2)) * 100)
              else None) \<rparr>"
proof -
  from assms obtain r rs where "pts = r # rs"
    by (cases pts) auto
  then show ?thesis
    by (simp add: compute_kpis_def iloc_last_def Let_def)
qed




text \<open>
  Claim C9, amended. For a non-empty yearly frame the percent change against the
  previous point is null exactly when there are fewer than two points or the previous
  value is zero. The change against the previous point is never null: it is 0 for a
  single point. With two points or more, both are the absolute and the percent change
  that \<^verbatim>\<open>classify_trend\<close> computes for the last two points.
\<close>

theorem compute_kpis_previous_point:
  assumes "pts \<noteq> []"
  shows "\<exists>k. compute_kpis pts = Inr k \<and>
     change_abs k \<noteq> None \<and>
     (change_pct k = None \<longleftrightarrow> length pts < 2 \<or> y_value (pts ! (length pts - 2)) = 0) \<and>
     (length pts < 2 \<longrightarrow> change_abs k = Some 0) \<and>
     (2 \<le> length pts \<longrightarrow>
        (\<exists>t. classify_trend [pts ! (length pts - 2), last pts] = Inr t \<and>
             change_abs k = Some (absolute_change t) \<and>
             change_pct k = percent_change t))"
  using assms
  by (auto simp add: compute_kpis_nonempty classify_trend_nonempty)


theorem compute_kpis_previous_point_witness:
  "[\<lparr>y_year = 2015, y_value = 40\<rparr>, \<lparr>y_year = 2020, y_value = 30\<rparr>] \<noteq> [] \<and>
   (\<exists>k. compute_kpis [\<lparr>y_year = 2015, y_value = 40\<rparr>, \<lparr>y_year = 2020, y_value = 30\<rparr>] = Inr k \<and>
        change_abs k = Some (- 10) \<and> change_pct k = Some (- 25))"
proof -
  let ?pts = "[\<lparr>y_year = 2015, y_value = 40\<rparr>, \<lparr>y_year = 2020, y_value = 30\<rparr>]"
  have ne: "?pts \<noteq> []" by simp
  from compute_kpis_previous_point [OF ne] obtain k t where
    k: "compute_kpis ?pts = Inr k" and
    t: "classify_trend [?pts ! (length ?pts - 2), last ?pts] = Inr t" and
    c: "change_abs k = Some (absolute_change t)" "change_pct k = percent_change t"
    by auto
  from t have "absolute_change t = - 10" "percent_change t = Some (- 25)"
    by (auto simp add: classify_trend_nonempty)
  with c k ne show ?thesis by simp
qed

text \<open>
  The claim as stated fails for the change against the previous point: for a single
  point it is 0, and after a previous value of zero it is the difference, not null.
\<close>

theorem compute_kpis_change_abs_not_null:
  "compute_kpis [\<lparr>y_year = 2019, y_value = 12.5\<rparr>] =
     Inr \<lparr> latest_year = 2019, latest_value = 12.5, change_abs = Some 0, change_pct = None \<rparr> \<and>
   compute_kpis [\<lparr>y_year = 2018, y_value = 0\<rparr>, \<lparr>y_year = 2019, y_value = 5\<rparr>] =
     Inr \<lparr> latest_year = 2019, latest_value = 5, change_abs = Some 5, change_pct = None \<rparr>"
  by (simp add: compute_kpis_nonempty)

section \<open>Properties of the narrative\<close>

text \<open>
  Claim C10. The narrative does not depend on the indicator name: two calls with any
  two names give the same text as soon as the summaries agree on label, years, values
  and percent change; in particular for one and the same summary.
\<close>

theorem make_trend_narrative_ignores_name:
  assumes "label t1 = label t2" and "start_year t1 = start_year t2" and
    "end_year t1 = end_year t2" and "start_val t1 = start_val t2" and
    "end_val t1 = end_val t2" and "percent_change t1 = percent_change t2"
  shows "make_trend_narrative round2_str fmt_1f name1 t1 =
         make_trend_narrative round2_str fmt_1f name2 t2"
  using assms by (simp add: make_trend_narrative_def)

theorem make_trend_narrative_ignores_name_witness:
  "\<forall>round2_str fmt_1f.
     label example_trend = label (example_trend\<lparr>absolute_change := 0\<rparr>) \<and>
     make_trend_narrative round2_str fmt_1f ''HIV mortality rate'' example_trend =
     make_trend_narrative round2_str fmt_1f ''Suicide rate''
       (example_trend\<lparr>absolute_change := 0\<rparr>)"
  using make_trend_narrative_ignores_name
    [of example_trend "example_trend\<lparr>absolute_change := 0\<rparr>"]
  by simp

section \<open>Properties of the explanatory text\<close>

lemma str_in_iff: "str_in kw s \<longleftrightarrow> (\<exists>ps ss. s = ps @ kw @ ss)"
proof (induction s)
  case Nil
  then show ?case by auto
next
  case (Cons c cs)
  have "take (length kw) (c # cs) = kw \<longleftrightarrow> (\<exists>ss. c # cs = kw @ ss)"
  proof
    assume "take (length kw) (c # cs) = kw"
    then have "c # cs = kw @ drop (length kw) (c # cs)"
      by (metis append_take_drop_id)
    then show "\<exists>ss. c # cs = kw @ ss" ..
  next
    assume "\<exists>ss. c # cs = kw @ ss"
    then show "take (length kw) (c # cs) = kw" by auto
  qed
  moreover have "(\<exists>ps ss. c # cs = ps @ kw @ ss) \<longleftrightarrow>
      (\<exists>ss. c # cs = kw @ ss) \<or> (\<exists>ps ss. cs = ps @ kw @ ss)"
  proof
    assume "\<exists>ps ss. c # cs = ps @ kw @ ss"
    then obtain ps ss where e: "c # cs = ps @ kw @ ss" by blast
    show "(\<exists>ss. c # cs = kw @ ss) \<or> (\<exists>ps ss. cs = ps @ kw @ ss)"
    proof (cases ps)
      case Nil
      with e show ?thesis by auto
    next
      case (Cons p ps')
      with e have "cs = ps' @ kw @ ss" by simp
      then show ?thesis by blast
    qed
  next
    assume "(\<exists>ss. c # cs = kw @ ss) \<or> (\<exists>ps ss. cs = ps @ kw @ ss)"
    then show "\<exists>ps ss. c # cs = ps @ kw @ ss"
    proof
      assume "\<exists>ss. c # cs = kw @ ss"
      then obtain ss where "c # cs = [] @ kw @ ss" by auto
      then show ?thesis by blast
    next
      assume "\<exists>ps ss. cs = ps @ kw @ ss"
      then obtain ps ss where "cs = ps @ kw @ ss" by blast
      then have "c # cs = (c # ps) @ kw @ ss" by simp
      then show ?thesis by blast
    qed
  qed
  ultimately show ?case using Cons.IH by simp
qed

lemma str_in_lower_iff:
  assumes "str_lower kw = kw"
  shows "str_in kw (str_lower name) \<longleftrightarrow> occurs_ignoring_case kw name"
proof
  assume "str_in kw (str_lower name)"
  then obtain ps ss where "map lower_char name = ps @ kw @ ss"
    by (auto simp: str_in_iff str_lower_def)
  then have "\<exists>us rest. name = us @ rest \<and> ps = map lower_char us \<and>
      kw @ ss = map lower_char rest"
    by (simp only: map_eq_append_conv)
  then obtain us rest where 1: "name = us @ rest" "kw @ ss = map lower_char rest"
    by blast
  from 1(2) have "\<exists>vs ws. rest = vs @ ws \<and> kw = map lower_char vs \<and> ss = map lower_char ws"
    by (simp only: append_eq_map_conv)
  then obtain vs ws where 2: "rest = vs @ ws" "kw = map lower_char vs"
    by blast
  from 1(1) 2 have "name = us @ vs @ ws" "map lower_char vs = kw" by simp_all
  with assms show "occurs_ignoring_case kw name"
    unfolding occurs_ignoring_case_def str_lower_def by metis
next
  assume "occurs_ignoring_case kw name"
  then obtain ps w ss where "name = ps @ w @ ss" "str_lower w = kw"
    using assms by (auto simp: occurs_ignoring_case_def)
  then have "str_lower name = str_lower ps @ kw @ str_lower ss"
    by (auto simp: str_lower_def)
  then show "str_in kw (str_lower name)"
    unfolding str_in_iff by blast
qed

lemma keywords_lower:
  "str_lower ''infant'' = ''infant''" "str_lower ''neonatal'' = ''neonatal''"
  "str_lower ''under-five'' = ''under-five''" "str_lower ''adolescent'' = ''adolescent''"
  "str_lower ''maternal'' = ''maternal''" "str_lower ''hiv'' = ''hiv''"
  "str_lower ''tb'' = ''tb''" "str_lower ''tuberculosis'' = ''tuberculosis''"
  "str_lower ''suicide'' = ''suicide''"
  by (simp_all add: str_lower_def lower_char_def)

lemmas text_defs = TEXT_CHILD_def TEXT_ADOLESCENT_def TEXT_MATERNAL_def TEXT_HIV_def
  TEXT_TB_def TEXT_SUICIDE_def TEXT_GENERIC_def

lemma generic_text_differs:
  "TEXT_CHILD \<noteq> TEXT_GENERIC" "TEXT_ADOLESCENT \<noteq> TEXT_GENERIC"
  "TEXT_MATERNAL \<noteq> TEXT_GENERIC" "TEXT_HIV \<noteq> TEXT_GENERIC"
  "TEXT_TB \<noteq> TEXT_GENERIC" "TEXT_SUICIDE \<noteq> TEXT_GENERIC"
  by (simp_all add: text_defs)

lemma describe_indicator_keywords:
  "describe_indicator name =
     (if occurs_ignoring_case ''infant'' name \<or> occurs_ignoring_case ''neonatal'' name \<or>
         occurs_ignoring_case ''under-five'' name then TEXT_CHILD
      else if occurs_ignoring_case ''adolescent'' name then TEXT_ADOLESCENT
      else if occurs_ignoring_case ''maternal'' name then TEXT_MATERNAL
      else if occurs_ignoring_case ''hiv'' name then TEXT_HIV
      else if occurs_ignoring_case ''tb'' name \<or> occurs_ignoring_case ''tuberculosis'' name
        then TEXT_TB
      else if occurs_ignoring_case ''suicide'' name then TEXT_SUICIDE
      else TEXT_GENERIC)"
  unfolding describe_indicator_def Let_def
  by (simp only: str_in_lower_iff [OF keywords_lower(1)] str_in_lower_iff [OF keywords_lower(2)]
      str_in_lower_iff [OF keywords_lower(3)] str_in_lower_iff [OF keywords_lower(4)]
      str_in_lower_iff [OF keywords_lower(5)] str_in_lower_iff [OF keywords_lower(6)]
      str_in_lower_iff [OF keywords_lower(7)] str_in_lower_iff [OF keywords_lower(8)]
      str_in_lower_iff [OF keywords_lower(9)])

lemma describe_hiv: "describe_indicator ''HIV mortality rate'' = TEXT_HIV"
  by (simp add: describe_indicator_def str_lower_def lower_char_def)

text \<open>
  Claim C8. The explanatory text is chosen by the first group, in the order child
  (infant, neonatal, under-five), adolescent, maternal, HIV, TB (tb, tuberculosis),
  suicide, one of whose keywords occurs in the name, ignoring case. The generic text is
  returned exactly when no keyword of the six groups occurs. The name
  \<^verbatim>\<open>HIV mortality rate\<close> gets the HIV text, which is not the generic one.
\<close>

theorem describe_indicator_priority:
  "describe_indicator name =
     (if occurs_ignoring_case ''infant'' name \<or> occurs_ignoring_case ''neonatal'' name \<or>
         occurs_ignoring_case ''under-five'' name then TEXT_CHILD
      else if occurs_ignoring_case ''adolescent'' name then TEXT_ADOLESCENT
      else if occurs_ignoring_case ''maternal'' name then TEXT_MATERNAL
      else if occurs_ignoring_case ''hiv'' name then TEXT_HIV
      else if occurs_ignoring_case ''tb'' name \<or> occurs_ignoring_case ''tuberculosis'' name
        then TEXT_TB
      else if occurs_ignoring_case ''suicide'' name then TEXT_SUICIDE
      else TEXT_GENERIC) \<and>
   (describe_indicator name = TEXT_GENERIC \<longleftrightarrow>
      \<not> (occurs_ignoring_case ''infant'' name \<or> occurs_ignoring_case ''neonatal'' name \<or>
         occurs_ignoring_case ''under-five'' name \<or> occurs_ignoring_case ''adolescent'' name \<or>
         occurs_ignoring_case ''maternal'' name \<or> occurs_ignoring_case ''hiv'' name \<or>
         occurs_ignoring_case ''tb'' name \<or> occurs_ignoring_case ''tuberculosis'' name \<or>
         occurs_ignoring_case ''suicide'' name)) \<and>
   describe_indicator ''HIV mortality rate'' = TEXT_HIV \<and> TEXT_HIV \<noteq> TEXT_GENERIC"
proof (intro conjI)
  show "describe_indicator name = TEXT_GENERIC \<longleftrightarrow>
      \<not> (occurs_ignoring_case ''infant'' name \<or> occurs_ignoring_case ''neonatal'' name \<or>
         occurs_ignoring_case ''under-five'' name \<or> occurs_ignoring_case ''adolescent'' name \<or>
         occurs_ignoring_case ''maternal'' name \<or> occurs_ignoring_case ''hiv'' name \<or>
         occurs_ignoring_case ''tb'' name \<or> occurs_ignoring_case ''tuberculosis'' name \<or>
         occurs_ignoring_case ''suicide'' name)"
    unfolding describe_indicator_keywords using generic_text_differs by presburger
qed (rule describe_indicator_keywords describe_hiv generic_text_differs)+

text \<open>A name with both \<^verbatim>\<open>Infant\<close> and \<^verbatim>\<open>HIV\<close>: the child group comes first.\<close>

lemma occurs_example: "occurs_ignoring_case ''infant'' ''Infant HIV prevalence''"
  unfolding str_in_lower_iff [OF keywords_lower(1), symmetric]
  by (simp add: str_lower_def lower_char_def)

theorem describe_indicator_priority_witness:
  "occurs_ignoring_case ''infant'' ''Infant HIV prevalence'' \<and>
   describe_indicator ''Infant HIV prevalence'' = TEXT_CHILD"
  using describe_indicator_priority [of "''Infant HIV prevalence''"] occurs_example
  by presburger


end
